theory Spec2Isabelle
  imports Main
begin

section \<open>The Xavier bridge (xavier_bridge.py)\<close>

text \<open>
  The script reads a command name and an optional JSON payload from \<open>sys.argv\<close>, maps the
  command name to a slash command, hands both to an external \<open>XavierCommands\<close> object and
  prints one line describing the outcome.

  Python strings are modelled as \<open>string\<close>; a character outside ASCII stands as its UTF-8
  bytes. The script never measures or indexes a string, so nothing depends on that choice.
\<close>

subsection \<open>Python values and exceptions\<close>

text \<open>
  The values that travel through the script: what \<open>json.loads\<close> produces and what the
  executor puts into its result mapping. Floats are left out.
\<close>

datatype pyval =
    PNone
  | PBool bool
  | PInt int
  | PStr string
  | PList "pyval list"
  | PDict "(string \<times> pyval) list"

text \<open>
  The script tells three kinds of exception apart: \<open>ImportError\<close> (line 13), any instance of
  \<open>Exception\<close> (line 59), and the rest of \<open>BaseException\<close> (\<open>KeyboardInterrupt\<close>,
  \<open>SystemExit\<close>, \<open>GeneratorExit\<close>), which only the bare \<open>except:\<close> of line 28 catches.
  The string is what \<open>str(e)\<close> returns.
\<close>

datatype exc_class = ImportError | OtherException | NonException

datatype pyexc = Raised exc_class string

fun isinstance_Exception :: "pyexc \<Rightarrow> bool" where
  "isinstance_Exception (Raised c m) = (c \<noteq> NonException)"

fun isinstance_ImportError :: "pyexc \<Rightarrow> bool" where
  "isinstance_ImportError (Raised c m) = (c = ImportError)"

fun str_exc :: "pyexc \<Rightarrow> string" where
  "str_exc (Raised c m) = m"

text \<open>Truthiness, as \<open>if result.get('success'):\<close> tests it.\<close>

fun truthy :: "pyval \<Rightarrow> bool" where
  "truthy PNone = False"
| "truthy (PBool b) = b"
| "truthy (PInt i) = (i \<noteq> 0)"
| "truthy (PStr s) = (s \<noteq> [])"
| "truthy (PList xs) = (xs \<noteq> [])"
| "truthy (PDict kvs) = (kvs \<noteq> [])"

fun is_mapping :: "pyval \<Rightarrow> bool" where
  "is_mapping (PDict kvs) = True"
| "is_mapping v = False"

subsection \<open>Library operations the script uses\<close>

text \<open>\<open>sep.join(xs)\<close>\<close>

fun str_join :: "string \<Rightarrow> string list \<Rightarrow> string" where
  "str_join sep [] = []"
| "str_join sep [x] = x"
| "str_join sep (x # y # ys) = x @ sep @ str_join sep (y # ys)"

text \<open>\<open>s.replace(old, new)\<close> for a one-character \<open>old\<close>: every occurrence is replaced.\<close>

definition str_replace :: "string \<Rightarrow> char \<Rightarrow> string \<Rightarrow> string" where
  "str_replace s old new = concat (map (\<lambda>c. if c = old then new else [c]) s)"

text \<open>\<open>d.get(key, default)\<close>; \<open>d.get(key)\<close> is \<open>d.get(key, None)\<close>.\<close>

definition dict_get :: "('k \<rightharpoonup> 'v) \<Rightarrow> 'k \<Rightarrow> 'v \<Rightarrow> 'v" where
  "dict_get d key dflt = (case d key of Some v \<Rightarrow> v | None \<Rightarrow> dflt)"

subsection \<open>The world outside the script\<close>

text \<open>
  Everything the script calls but does not define is a field of the world it runs in: the
  import of the executor's module, the working directory, the JSON codec of the standard
  library, \<open>str()\<close> on a value that is not a string, and the executor itself. The type
  variable is the type of the executor object. A call that can raise returns a sum, with
  the exception on the left.
\<close>

record 'x world =
  import_XavierCommands :: "pyexc option"
  getcwd :: "pyexc + string"
  json_loads :: "string \<Rightarrow> pyexc + pyval"
  json_dumps :: "pyval \<Rightarrow> nat \<Rightarrow> pyexc + string"
  builtin_str :: "pyval \<Rightarrow> string"
  XavierCommands :: "string \<Rightarrow> pyexc + 'x"
  execute :: "'x \<Rightarrow> string \<Rightarrow> pyval \<Rightarrow> pyexc + (string \<rightharpoonup> pyval)"

text \<open>
  In \<open>import_XavierCommands\<close>, \<open>None\<close> is a successful import. The second argument of
  \<open>json_dumps\<close> is its \<open>indent\<close> keyword.
\<close>

text \<open>
  What a run leaves behind: the arguments of each \<open>print\<close> call in order, how the process
  ended, and the calls of \<open>execute\<close> that were made.
\<close>

datatype status = Exit nat | Uncaught pyexc

record outcome =
  stdout :: "string list"
  status :: status
  executed :: "(string \<times> pyval) list"

subsection \<open>The script\<close>

text \<open>Lines 23 to 29: the payload.\<close>

definition parse_args :: "'x world \<Rightarrow> string list \<Rightarrow> pyval" where
  "parse_args w argv =
     (if length argv > 2 then
        (case json_loads w (str_join '' '' (drop 2 argv)) of
           Inr v \<Rightarrow> v
         | Inl e \<Rightarrow> PDict [])
      else PDict [])"

text \<open>Lines 32 to 44.\<close>

definition command_map :: "(string \<times> string) list" where
  "command_map =
     [(''create-project'', ''/create-project''),
      (''create-story'', ''/create-story''),
      (''create-task'', ''/create-task''),
      (''create-bug'', ''/create-bug''),
      (''create-sprint'', ''/create-sprint''),
      (''start-sprint'', ''/start-sprint''),
      (''show-backlog'', ''/show-backlog''),
      (''xavier-help'', ''/xavier-help''),
      (''xavier-update'', ''/xavier-update''),
      (''estimate-story'', ''/estimate-story''),
      (''set-story-points'', ''/set-story-points'')]"

text \<open>Line 46.\<close>

definition xavier_command :: "string \<Rightarrow> string" where
  "xavier_command command =
     dict_get (map_of command_map) (str_replace command CHR ''/'' []) (''/'' @ command)"

text \<open>The two glyphs of the status lines, U+2705 and U+274C, in UTF-8.\<close>

definition check_mark :: string where
  "check_mark = [CHR 0xE2, CHR 0x9C, CHR 0x85]"

definition cross_mark :: string where
  "cross_mark = [CHR 0xE2, CHR 0x9D, CHR 0x8C]"

text \<open>An f-string field: \<open>str\<close> of a string is the string.\<close>

definition format_field :: "'x world \<Rightarrow> pyval \<Rightarrow> string" where
  "format_field w v = (case v of PStr s \<Rightarrow> s | _ \<Rightarrow> builtin_str w v)"

text \<open>Lines 52 to 58: the text that is printed, or the exception \<open>json.dumps\<close> raises.\<close>

definition format_result :: "'x world \<Rightarrow> (string \<rightharpoonup> pyval) \<Rightarrow> pyexc + string" where
  "format_result w result =
     (if truthy (dict_get result ''success'' PNone) then
        (case result ''result'' of
           Some v \<Rightarrow> json_dumps w v 2
         | None \<Rightarrow> Inr (check_mark @ '' Command executed successfully''))
      else
        Inr (cross_mark @ '' Error: '' @
             format_field w (dict_get result ''error'' (PStr ''Unknown error''))))"

text \<open>
  Lines 49 to 58, the body of the \<open>try\<close>: the line to print or the exception that left the
  body, with the calls of \<open>execute\<close> made on the way.
\<close>

definition try_body ::
  "'x world \<Rightarrow> string \<Rightarrow> pyval \<Rightarrow> (pyexc + string) \<times> (string \<times> pyval) list" where
  "try_body w cmd args =
     (case getcwd w of
        Inl e \<Rightarrow> (Inl e, [])
      | Inr cwd \<Rightarrow>
          (case XavierCommands w cwd of
             Inl e \<Rightarrow> (Inl e, [])
           | Inr xavier \<Rightarrow>
               (case execute w xavier cmd args of
                  Inl e \<Rightarrow> (Inl e, [(cmd, args)])
                | Inr result \<Rightarrow> (format_result w result, [(cmd, args)]))))"

text \<open>
  Lines 17 to 60. Returning from \<open>main\<close> ends the process with status 0; an exception that
  \<open>except Exception\<close> does not match leaves \<open>main\<close>.
\<close>

definition main :: "'x world \<Rightarrow> string list \<Rightarrow> outcome" where
  "main w argv =
     (if length argv < 2 then
        \<lparr>stdout = [''Usage: xavier_bridge.py <command> [arguments]''],
         status = Exit 1, executed = []\<rparr>
      else
        let command = argv ! 1;
            args = parse_args w argv;
            cmd = xavier_command command
        in (case try_body w cmd args of
              (Inr line, calls) \<Rightarrow>
                \<lparr>stdout = [line], status = Exit 0, executed = calls\<rparr>
            | (Inl e, calls) \<Rightarrow>
                if isinstance_Exception e then
                  \<lparr>stdout = [cross_mark @ '' Error: '' @ str_exc e],
                   status = Exit 0, executed = calls\<rparr>
                else
                  \<lparr>stdout = [], status = Uncaught e, executed = calls\<rparr>))"

text \<open>Lines 11 to 15 and 62 to 63: the import, then \<open>main\<close>.\<close>

definition bridge :: "'x world \<Rightarrow> string list \<Rightarrow> outcome" where
  "bridge w argv =
     (case import_XavierCommands w of
        None \<Rightarrow> main w argv
      | Some e \<Rightarrow>
          if isinstance_ImportError e then
            \<lparr>stdout = [''Error: Xavier Framework not properly installed''],
             status = Exit 1, executed = []\<rparr>
          else
            \<lparr>stdout = [], status = Uncaught e, executed = []\<rparr>)"

subsection \<open>A sample world\<close>

text \<open>
  One concrete world for the example runs below. Its JSON codec is a finite excerpt of the
  library's behaviour: \<open>sample_loads\<close> decodes two texts and rejects every other one the way
  \<open>json.loads\<close> rejects a text that starts with no JSON value, \<open>sample_dumps\<close> renders one
  value. Its executor object is the project directory it was built from.
\<close>

definition sample_loads :: "string \<Rightarrow> pyexc + pyval" where
  \<open>sample_loads s =
     (if s = ''{"title": "Login", "points": 3}'' then
        Inr (PDict [(''title'', PStr ''Login''), (''points'', PInt 3)])
      else if s = ''[1, 2]'' then Inr (PList [PInt 1, PInt 2])
      else Inl (Raised OtherException ''Expecting value: line 1 column 1 (char 0)''))\<close>

definition sample_dumps :: "pyval \<Rightarrow> nat \<Rightarrow> pyexc + string" where
  \<open>sample_dumps v indent =
     (if v = PDict [(''a'', PInt 1)] \<and> indent = 2 then
        Inr (''{'' @ [CHR 0x0A] @ ''  "a": 1'' @ [CHR 0x0A] @ ''}'')
      else Inl (Raised OtherException ''sample_dumps: value outside the table''))\<close>

definition sample_execute ::
  "string \<Rightarrow> string \<Rightarrow> pyval \<Rightarrow> pyexc + (string \<rightharpoonup> pyval)" where
  "sample_execute xavier cmd args =
     (if cmd = ''/create-story'' then
        Inr [''success'' \<mapsto> PBool True, ''result'' \<mapsto> PDict [(''a'', PInt 1)]]
      else if cmd = ''/show-backlog'' then Inr [''success'' \<mapsto> PBool True]
      else if cmd = ''/start-sprint'' then
        Inr [''success'' \<mapsto> PBool False, ''error'' \<mapsto> PStr ''No sprint planned'']
      else if cmd = ''/xavier-update'' then
        Inl (Raised OtherException ''Network unreachable'')
      else Inr [''success'' \<mapsto> PBool False])"

fun sample_str :: "pyval \<Rightarrow> string" where
  "sample_str PNone = ''None''"
| "sample_str (PBool b) = (if b then ''True'' else ''False'')"
| "sample_str v = ''...''"

definition sample_world :: "string world" where
  "sample_world =
     \<lparr>import_XavierCommands = None,
      getcwd = Inr ''/home/dev/shop'',
      json_loads = sample_loads,
      json_dumps = sample_dumps,
      builtin_str = sample_str,
      XavierCommands = (\<lambda>cwd. Inr cwd),
      execute = sample_execute\<rparr>"

section \<open>Properties\<close>

subsection \<open>Unfolding a run\<close>

lemma parse_args_Cons:
  "parse_args w (script # command # extra) =
     (if extra = [] then PDict []
      else case json_loads w (str_join '' '' extra) of Inr v \<Rightarrow> v | Inl e \<Rightarrow> PDict [])"
  by (simp add: parse_args_def)

lemma main_Cons:
  "main w (script # command # extra) =
     (case try_body w (xavier_command command) (parse_args w (script # command # extra)) of
        (Inr line, calls) \<Rightarrow> \<lparr>stdout = [line], status = Exit 0, executed = calls\<rparr>
      | (Inl e, calls) \<Rightarrow>
          if isinstance_Exception e then
            \<lparr>stdout = [cross_mark @ '' Error: '' @ str_exc e],
             status = Exit 0, executed = calls\<rparr>
          else \<lparr>stdout = [], status = Uncaught e, executed = calls\<rparr>)"
  by (simp add: main_def)

lemma executed_main_Cons:
  "executed (main w (script # command # extra)) =
     snd (try_body w (xavier_command command) (parse_args w (script # command # extra)))"
  by (simp add: main_Cons split: prod.splits sum.splits)

lemma executed_main_short: "length argv < 2 \<Longrightarrow> executed (main w argv) = []"
  by (simp add: main_def)

lemma argv_shape:
  "2 \<le> length argv \<Longrightarrow> \<exists>script command extra. argv = script # command # extra"
  by (cases argv; cases "tl argv"; simp)

text \<open>The \<open>try\<close> body calls \<open>execute\<close> at most once, with the arguments it was given.\<close>

lemma try_body_calls:
  "snd (try_body w cmd args) = [] \<or> snd (try_body w cmd args) = [(cmd, args)]"
  by (simp add: try_body_def split: sum.splits)

lemma try_body_reached:
  "getcwd w = Inr cwd \<Longrightarrow> XavierCommands w cwd = Inr xavier \<Longrightarrow>
   try_body w cmd args =
     (case execute w xavier cmd args of
        Inl e \<Rightarrow> (Inl e, [(cmd, args)])
      | Inr result \<Rightarrow> (format_result w result, [(cmd, args)]))"
  by (simp add: try_body_def)

lemma executed_main_all:
  "list_all (\<lambda>(c, a). c = xavier_command (argv ! 1) \<and> a = parse_args w argv)
     (executed (main w argv))"
proof (cases "length argv < 2")
  case True
  then show ?thesis by (simp add: executed_main_short)
next
  case False
  then obtain script command extra where argv: "argv = script # command # extra"
    using argv_shape [of argv] by auto
  show ?thesis
    using try_body_calls [of w "xavier_command command" "parse_args w argv"]
    by (auto simp: argv executed_main_Cons)
qed

text \<open>Once the module is imported, the process is \<open>main\<close>.\<close>

lemma bridge_imported: "import_XavierCommands w = None \<Longrightarrow> bridge w argv = main w argv"
  by (simp add: bridge_def)

lemma bridge_import_failed:
  "import_XavierCommands w = Some (Raised ImportError m) \<Longrightarrow>
   bridge w argv =
     \<lparr>stdout = [''Error: Xavier Framework not properly installed''],
      status = Exit 1, executed = []\<rparr>"
  by (simp add: bridge_def)

text \<open>With the executor built, \<open>execute\<close> is called exactly once.\<close>

lemma executed_reached:
  "getcwd w = Inr cwd \<Longrightarrow> XavierCommands w cwd = Inr xavier \<Longrightarrow>
   executed (main w (script # command # extra)) =
     [(xavier_command command, parse_args w (script # command # extra))]"
  by (simp add: executed_main_Cons try_body_reached split: sum.splits)

lemma main_returned:
  assumes "getcwd w = Inr cwd" and "XavierCommands w cwd = Inr xavier"
    and "execute w xavier (xavier_command command) (parse_args w (script # command # extra)) =
           Inr result"
    and "format_result w result = Inr line"
  shows "main w (script # command # extra) =
           \<lparr>stdout = [line], status = Exit 0,
            executed = [(xavier_command command, parse_args w (script # command # extra))]\<rparr>"
  using assms by (simp add: main_Cons try_body_reached)

lemma parse_args_decoded:
  "extra \<noteq> [] \<Longrightarrow> json_loads w (str_join '' '' extra) = Inr v \<Longrightarrow>
   parse_args w (script # command # extra) = v"
  by (simp add: parse_args_Cons)

lemma parse_args_failed:
  "json_loads w (str_join '' '' extra) = Inl e \<Longrightarrow>
   parse_args w (script # command # extra) = PDict []"
  by (simp add: parse_args_Cons)

subsection \<open>Alias resolution\<close>

lemma str_replace_no_occurrence: "old \<notin> set s \<Longrightarrow> str_replace s old new = s"
  by (induction s) (auto simp: str_replace_def)

lemma str_replace_leading: "str_replace (old # s) old [] = str_replace s old []"
  by (simp add: str_replace_def)

text \<open>
  The key that is looked up has every slash removed; the fallback is built from the name
  as it was typed.
\<close>

lemma xavier_command_unrecognized:
  "map_of command_map (str_replace command CHR ''/'' []) = None \<Longrightarrow>
   xavier_command command = CHR ''/'' # command"
  by (simp add: xavier_command_def dict_get_def)

lemma xavier_command_plain_unrecognized:
  "CHR ''/'' \<notin> set x \<Longrightarrow> map_of command_map x = None \<Longrightarrow> xavier_command x = CHR ''/'' # x"
  by (simp add: xavier_command_unrecognized str_replace_no_occurrence)

lemma xavier_command_slashed_unrecognized:
  "CHR ''/'' \<notin> set x \<Longrightarrow> map_of command_map x = None \<Longrightarrow>
   xavier_command (CHR ''/'' # x) = CHR ''/'' # CHR ''/'' # x"
  by (simp add: xavier_command_unrecognized str_replace_leading str_replace_no_occurrence)

lemma xavier_command_slash: "\<exists>rest. xavier_command command = CHR ''/'' # rest"
  unfolding xavier_command_def dict_get_def command_map_def
  by (simp split: option.splits)

text \<open>
  C1. A command name outside the alias table should resolve to \<open>/x\<close> whether it is typed
  as \<open>x\<close> or as \<open>/x\<close>. The script does so for \<open>deploy\<close>; for \<open>/deploy\<close> the leading slash
  is removed from the lookup key only, and the fallback has two slashes.
\<close>

theorem xavier_command_leading_slash_doubled:
  "xavier_command ''deploy'' = ''/deploy'' \<and> xavier_command ''/deploy'' = ''//deploy''"
  by (simp add: xavier_command_def dict_get_def str_replace_def command_map_def)

text \<open>
  C5. Each of the eleven names of the alias table resolves to the same name with one
  slash in front.
\<close>

theorem xavier_command_recognized:
  "xavier_command ''create-project'' = ''/create-project'' \<and>
   xavier_command ''create-story'' = ''/create-story'' \<and>
   xavier_command ''create-task'' = ''/create-task'' \<and>
   xavier_command ''create-bug'' = ''/create-bug'' \<and>
   xavier_command ''create-sprint'' = ''/create-sprint'' \<and>
   xavier_command ''start-sprint'' = ''/start-sprint'' \<and>
   xavier_command ''show-backlog'' = ''/show-backlog'' \<and>
   xavier_command ''xavier-help'' = ''/xavier-help'' \<and>
   xavier_command ''xavier-update'' = ''/xavier-update'' \<and>
   xavier_command ''estimate-story'' = ''/estimate-story'' \<and>
   xavier_command ''set-story-points'' = ''/set-story-points''"
  by (simp add: xavier_command_def dict_get_def str_replace_def command_map_def)

text \<open>
  C4. Whatever the command name, the command string of every call of \<open>execute\<close> begins
  with a slash: the resolved command always does, and no call is made with anything else.
\<close>

theorem executed_command_begins_with_slash:
  "(\<exists>rest. xavier_command command = CHR ''/'' # rest) \<and>
   list_all (\<lambda>(c, a). \<exists>rest. c = CHR ''/'' # rest) (executed (main w argv))"
proof
  show "\<exists>rest. xavier_command command = CHR ''/'' # rest"
    by (rule xavier_command_slash)
  show "list_all (\<lambda>(c, a). \<exists>rest. c = CHR ''/'' # rest) (executed (main w argv))"
    using executed_main_all [of argv w] xavier_command_slash [of "argv ! 1"]
    by (auto simp: list_all_iff)
qed

theorem executed_command_begins_with_slash_witness:
  "executed (main sample_world [''xavier_bridge.py'', ''deploy'']) = [(''/deploy'', PDict [])] \<and>
   list_all (\<lambda>(c, a). \<exists>rest. c = CHR ''/'' # rest)
     (executed (main sample_world [''xavier_bridge.py'', ''deploy'']))"
proof -
  have x: "xavier_command ''deploy'' = ''/deploy''"
    by (simp add: xavier_command_def dict_get_def str_replace_def command_map_def)
  have r: "getcwd sample_world = Inr ''/home/dev/shop''"
       "XavierCommands sample_world ''/home/dev/shop'' = Inr ''/home/dev/shop''"
    by (simp_all add: sample_world_def)
  have "executed (main sample_world [''xavier_bridge.py'', ''deploy'']) = [(''/deploy'', PDict [])]"
    using executed_reached [OF r, of "''xavier_bridge.py''" "''deploy''" "[]"]
    by (simp add: x parse_args_Cons)
  then show ?thesis
    using executed_command_begins_with_slash
            [of "''deploy''" sample_world "[''xavier_bridge.py'', ''deploy'']"]
    by simp
qed

subsection \<open>Usage\<close>

text \<open>
  C9. Without a command name (\<open>sys.argv\<close> shorter than two entries) \<open>main\<close> prints the
  usage line, ends the process with status 1 and never calls the executor.
\<close>

theorem main_missing_command:
  "length argv < 2 \<Longrightarrow>
   stdout (main w argv) = [''Usage: xavier_bridge.py <command> [arguments]''] \<and>
   status (main w argv) = Exit 1 \<and>
   executed (main w argv) = []"
  by (simp add: main_def)

theorem main_missing_command_witness:
  "length [''xavier_bridge.py''] < 2 \<and>
   stdout (main sample_world [''xavier_bridge.py'']) =
     [''Usage: xavier_bridge.py <command> [arguments]''] \<and>
   status (main sample_world [''xavier_bridge.py'']) = Exit 1 \<and>
   executed (main sample_world [''xavier_bridge.py'']) = []"
  using main_missing_command [of "[''xavier_bridge.py'']" sample_world] by simp

subsection \<open>The payload\<close>

text \<open>
  C3. When the text of the extra arguments does not decode, whatever \<open>json.loads\<close>
  raised, the arguments are the empty mapping and nothing of the failure is left: the run
  is the run without extra arguments, and every call of \<open>execute\<close> gets \<open>{}\<close>.
\<close>

theorem malformed_payload_is_empty_args:
  assumes "json_loads w (str_join '' '' extra) = Inl e"
  shows "parse_args w (script # command # extra) = PDict [] \<and>
         main w (script # command # extra) = main w [script, command] \<and>
         list_all (\<lambda>(c, a). a = PDict []) (executed (main w (script # command # extra))) \<and>
         (\<forall>cwd xavier. getcwd w = Inr cwd \<longrightarrow> XavierCommands w cwd = Inr xavier \<longrightarrow>
            executed (main w (script # command # extra)) = [(xavier_command command, PDict [])])"
proof -
  have p: "parse_args w (script # command # extra) = PDict []"
    using assms by (rule parse_args_failed)
  have q: "parse_args w [script, command] = PDict []"
    by (simp add: parse_args_Cons)
  have m: "main w (script # command # extra) = main w [script, command]"
    by (simp only: main_Cons p q)
  have a: "list_all (\<lambda>(c, a). a = PDict []) (executed (main w (script # command # extra)))"
    using executed_main_all [of "script # command # extra" w]
    by (simp add: p list_all_iff case_prod_unfold)
  have r: "\<forall>cwd xavier. getcwd w = Inr cwd \<longrightarrow> XavierCommands w cwd = Inr xavier \<longrightarrow>
            executed (main w (script # command # extra)) = [(xavier_command command, PDict [])]"
    using executed_reached [of w _ _ script command extra] by (simp add: p)
  from p m a r show ?thesis by blast
qed

theorem malformed_payload_is_empty_args_witness:
  "json_loads sample_world (str_join '' '' [''not'', ''json'']) =
     Inl (Raised OtherException ''Expecting value: line 1 column 1 (char 0)'') \<and>
   parse_args sample_world [''xavier_bridge.py'', ''create-task'', ''not'', ''json''] =
     PDict [] \<and>
   executed (main sample_world [''xavier_bridge.py'', ''create-task'', ''not'', ''json'']) =
     [(''/create-task'', PDict [])]"
proof -
  have l: "json_loads sample_world (str_join '' '' [''not'', ''json'']) =
     Inl (Raised OtherException ''Expecting value: line 1 column 1 (char 0)'')"
    by (simp add: sample_world_def sample_loads_def)
  have x: "xavier_command ''create-task'' = ''/create-task''"
    by (simp add: xavier_command_def dict_get_def str_replace_def command_map_def)
  have r: "getcwd sample_world = Inr ''/home/dev/shop''"
       "XavierCommands sample_world ''/home/dev/shop'' = Inr ''/home/dev/shop''"
    by (simp_all add: sample_world_def)
  note c = malformed_payload_is_empty_args [OF l, of "''xavier_bridge.py''" "''create-task''"]
  have p: "parse_args sample_world
             [''xavier_bridge.py'', ''create-task'', ''not'', ''json''] = PDict []"
    using c by (rule conjunct1)
  have e: "executed (main sample_world
             [''xavier_bridge.py'', ''create-task'', ''not'', ''json'']) =
           [(xavier_command ''create-task'', PDict [])]"
    using c r by blast
  show ?thesis
    using l p e by (simp only: x simp_thms)
qed

text \<open>
  C8. When there are extra arguments and their text, joined with single spaces, decodes
  to \<open>v\<close>, the arguments are \<open>v\<close>: every call of \<open>execute\<close> gets \<open>v\<close>, and with the executor
  built there is exactly that one call.
\<close>

theorem decoded_payload_is_passed:
  assumes "extra \<noteq> []" and "json_loads w (str_join '' '' extra) = Inr v"
  shows "parse_args w (script # command # extra) = v \<and>
         list_all (\<lambda>(c, a). a = v) (executed (main w (script # command # extra))) \<and>
         (\<forall>cwd xavier. getcwd w = Inr cwd \<longrightarrow> XavierCommands w cwd = Inr xavier \<longrightarrow>
            executed (main w (script # command # extra)) = [(xavier_command command, v)])"
proof -
  have p: "parse_args w (script # command # extra) = v"
    using assms by (rule parse_args_decoded)
  have a: "list_all (\<lambda>(c, a). a = v) (executed (main w (script # command # extra)))"
    using executed_main_all [of "script # command # extra" w]
    by (simp add: p list_all_iff case_prod_unfold)
  have r: "\<forall>cwd xavier. getcwd w = Inr cwd \<longrightarrow> XavierCommands w cwd = Inr xavier \<longrightarrow>
            executed (main w (script # command # extra)) = [(xavier_command command, v)]"
    using executed_reached [of w _ _ script command extra] by (simp add: p)
  from p a r show ?thesis by blast
qed

theorem decoded_payload_is_passed_witness:
  \<open>[''{"title":'', ''"Login",'', ''"points":'', ''3}''] \<noteq> [] \<and>
   json_loads sample_world (str_join '' '' [''{"title":'', ''"Login",'', ''"points":'', ''3}'']) =
     Inr (PDict [(''title'', PStr ''Login''), (''points'', PInt 3)]) \<and>
   executed (main sample_world
     [''xavier_bridge.py'', ''create-story'', ''{"title":'', ''"Login",'', ''"points":'', ''3}'']) =
     [(''/create-story'', PDict [(''title'', PStr ''Login''), (''points'', PInt 3)])]\<close>
proof -
  have l: \<open>json_loads sample_world
       (str_join '' '' [''{"title":'', ''"Login",'', ''"points":'', ''3}'']) =
     Inr (PDict [(''title'', PStr ''Login''), (''points'', PInt 3)])\<close>
    by (simp add: sample_world_def sample_loads_def)
  have x: "xavier_command ''create-story'' = ''/create-story''"
    by (simp add: xavier_command_def dict_get_def str_replace_def command_map_def)
  have r: "getcwd sample_world = Inr ''/home/dev/shop''"
       "XavierCommands sample_world ''/home/dev/shop'' = Inr ''/home/dev/shop''"
    by (simp_all add: sample_world_def)
  show ?thesis
    using decoded_payload_is_passed [OF _ l, of "''xavier_bridge.py''" "''create-story''"] l x r
    by simp
qed

text \<open>
  C10. A decoded value that is not a mapping (a list, a number, a string) is passed on as
  it is; the script does not replace it by the empty mapping.
\<close>

theorem decoded_non_mapping_is_passed:
  assumes "extra \<noteq> []" and "json_loads w (str_join '' '' extra) = Inr v"
    and "\<not> is_mapping v"
  shows "parse_args w (script # command # extra) = v \<and>
         parse_args w (script # command # extra) \<noteq> PDict [] \<and>
         list_all (\<lambda>(c, a). a = v \<and> \<not> is_mapping a)
           (executed (main w (script # command # extra))) \<and>
         (\<forall>cwd xavier. getcwd w = Inr cwd \<longrightarrow> XavierCommands w cwd = Inr xavier \<longrightarrow>
            executed (main w (script # command # extra)) = [(xavier_command command, v)])"
proof -
  have p: "parse_args w (script # command # extra) = v"
    using assms(1,2) by (rule parse_args_decoded)
  have n: "v \<noteq> PDict []"
    using assms(3) by auto
  have a: "list_all (\<lambda>(c, a). a = v \<and> \<not> is_mapping a)
             (executed (main w (script # command # extra)))"
    using executed_main_all [of "script # command # extra" w] assms(3)
    by (simp add: p list_all_iff case_prod_unfold)
  have r: "\<forall>cwd xavier. getcwd w = Inr cwd \<longrightarrow> XavierCommands w cwd = Inr xavier \<longrightarrow>
            executed (main w (script # command # extra)) = [(xavier_command command, v)]"
    using executed_reached [of w _ _ script command extra] by (simp add: p)
  from p n a r show ?thesis by simp
qed

theorem decoded_non_mapping_is_passed_witness:
  "[''[1,'', ''2]''] \<noteq> [] \<and>
   json_loads sample_world (str_join '' '' [''[1,'', ''2]'']) = Inr (PList [PInt 1, PInt 2]) \<and>
   \<not> is_mapping (PList [PInt 1, PInt 2]) \<and>
   executed (main sample_world [''xavier_bridge.py'', ''estimate-story'', ''[1,'', ''2]'']) =
     [(''/estimate-story'', PList [PInt 1, PInt 2])]"
proof -
  have l: "json_loads sample_world (str_join '' '' [''[1,'', ''2]'']) =
             Inr (PList [PInt 1, PInt 2])"
    by (simp add: sample_world_def sample_loads_def)
  have x: "xavier_command ''estimate-story'' = ''/estimate-story''"
    by (simp add: xavier_command_def dict_get_def str_replace_def command_map_def)
  have r: "getcwd sample_world = Inr ''/home/dev/shop''"
       "XavierCommands sample_world ''/home/dev/shop'' = Inr ''/home/dev/shop''"
    by (simp_all add: sample_world_def)
  show ?thesis
    using decoded_non_mapping_is_passed [OF _ l, of "''xavier_bridge.py''" "''estimate-story''"]
      l x r
    by simp
qed

subsection \<open>Executor failures and results\<close>

text \<open>
  C2. When building the executor (\<open>os.getcwd()\<close>, then the constructor) or calling
  \<open>execute\<close> raises an error, that is an instance of \<open>Exception\<close>, exactly one line is
  printed, the error prefix followed by \<open>str(e)\<close>, and \<open>main\<close> returns: exit status 0.
\<close>

theorem main_executor_raises:
  assumes exc: "isinstance_Exception e"
    and raised:
      "getcwd w = Inl e \<or>
       (\<exists>cwd. getcwd w = Inr cwd \<and>
          (XavierCommands w cwd = Inl e \<or>
           (\<exists>xavier. XavierCommands w cwd = Inr xavier \<and>
              execute w xavier (xavier_command command)
                (parse_args w (script # command # extra)) = Inl e)))"
  shows "stdout (main w (script # command # extra)) = [cross_mark @ '' Error: '' @ str_exc e] \<and>
         status (main w (script # command # extra)) = Exit 0"
proof -
  obtain calls where
    "try_body w (xavier_command command) (parse_args w (script # command # extra)) =
       (Inl e, calls)"
    using raised by (auto simp: try_body_def)
  then show ?thesis
    using exc by (simp add: main_Cons)
qed

theorem main_executor_raises_witness:
  "isinstance_Exception (Raised OtherException ''Network unreachable'') \<and>
   execute sample_world ''/home/dev/shop'' (xavier_command ''xavier-update'')
     (parse_args sample_world [''xavier_bridge.py'', ''xavier-update'']) =
       Inl (Raised OtherException ''Network unreachable'') \<and>
   stdout (main sample_world [''xavier_bridge.py'', ''xavier-update'']) =
     [cross_mark @ '' Error: Network unreachable''] \<and>
   status (main sample_world [''xavier_bridge.py'', ''xavier-update'']) = Exit 0"
proof -
  have x: "xavier_command ''xavier-update'' = ''/xavier-update''"
    by (simp add: xavier_command_def dict_get_def str_replace_def command_map_def)
  have e: "execute sample_world ''/home/dev/shop'' (xavier_command ''xavier-update'')
     (parse_args sample_world [''xavier_bridge.py'', ''xavier-update'']) =
       Inl (Raised OtherException ''Network unreachable'')"
    by (simp add: x sample_world_def sample_execute_def)
  have r: "getcwd sample_world = Inr ''/home/dev/shop''"
       "XavierCommands sample_world ''/home/dev/shop'' = Inr ''/home/dev/shop''"
    by (simp_all add: sample_world_def)
  show ?thesis
    using main_executor_raises [of "Raised OtherException ''Network unreachable''" sample_world
                 "''xavier-update''" "''xavier_bridge.py''" "[]"] e r
    by simp
qed

text \<open>
  What \<open>except Exception\<close> does not match (\<open>KeyboardInterrupt\<close>, \<open>SystemExit\<close>) leaves
  \<open>main\<close> with nothing printed.
\<close>

lemma main_non_exception_propagates:
  assumes "getcwd w = Inr cwd" and "XavierCommands w cwd = Inr xavier"
    and "execute w xavier (xavier_command command) (parse_args w (script # command # extra)) =
           Inl (Raised NonException m)"
  shows "stdout (main w (script # command # extra)) = [] \<and>
         status (main w (script # command # extra)) = Uncaught (Raised NonException m)"
  using assms by (simp add: main_Cons try_body_reached)

text \<open>
  C6. When the result mapping has a true \<open>success\<close> and a \<open>result\<close> key, what is printed is
  \<open>json.dumps\<close> of that value with \<open>indent=2\<close>, and nothing else.
\<close>

theorem main_prints_result_json:
  assumes "getcwd w = Inr cwd" and "XavierCommands w cwd = Inr xavier"
    and "execute w xavier (xavier_command command) (parse_args w (script # command # extra)) =
           Inr result"
    and "truthy (dict_get result ''success'' PNone)"
    and "result ''result'' = Some v"
    and "json_dumps w v 2 = Inr rendering"
  shows "stdout (main w (script # command # extra)) = [rendering] \<and>
         status (main w (script # command # extra)) = Exit 0"
proof -
  have "format_result w result = Inr rendering"
    using assms(4-6) by (simp add: format_result_def)
  with assms(1-3) show ?thesis
    by (simp add: main_returned)
qed

theorem main_prints_result_json_witness:
  \<open>execute sample_world ''/home/dev/shop'' (xavier_command ''create-story'')
     (parse_args sample_world [''xavier_bridge.py'', ''create-story'']) =
     Inr [''success'' \<mapsto> PBool True, ''result'' \<mapsto> PDict [(''a'', PInt 1)]] \<and>
   stdout (main sample_world [''xavier_bridge.py'', ''create-story'']) =
     [''{'' @ [CHR 0x0A] @ ''  "a": 1'' @ [CHR 0x0A] @ ''}''] \<and>
   status (main sample_world [''xavier_bridge.py'', ''create-story'']) = Exit 0\<close>
proof -
  have x: "xavier_command ''create-story'' = ''/create-story''"
    by (simp add: xavier_command_def dict_get_def str_replace_def command_map_def)
  have r: "getcwd sample_world = Inr ''/home/dev/shop''"
       "XavierCommands sample_world ''/home/dev/shop'' = Inr ''/home/dev/shop''"
    by (simp_all add: sample_world_def)
  have e: "execute sample_world ''/home/dev/shop'' (xavier_command ''create-story'')
     (parse_args sample_world [''xavier_bridge.py'', ''create-story'']) =
     Inr [''success'' \<mapsto> PBool True, ''result'' \<mapsto> PDict [(''a'', PInt 1)]]"
    by (simp add: x sample_world_def sample_execute_def)
  have t: "truthy (dict_get [''success'' \<mapsto> PBool True, ''result'' \<mapsto> PDict [(''a'', PInt 1)]]
             ''success'' PNone)"
    by (simp add: dict_get_def)
  have v: "[''success'' \<mapsto> PBool True, ''result'' \<mapsto> PDict [(''a'', PInt 1)]] ''result'' =
             Some (PDict [(''a'', PInt 1)])"
    by simp
  have d: \<open>json_dumps sample_world (PDict [(''a'', PInt 1)]) 2 =
             Inr (''{'' @ [CHR 0x0A] @ ''  "a": 1'' @ [CHR 0x0A] @ ''}'')\<close>
    by (simp add: sample_world_def sample_dumps_def)
  show ?thesis
    using main_prints_result_json [OF r e t v d] e by simp
qed

text \<open>
  C7. When \<open>success\<close> is false (or anything falsy, or missing), one line is printed: the
  error prefix followed by the \<open>error\<close> field, and by \<open>Unknown error\<close> when the mapping has
  no \<open>error\<close> key. The process still ends with status 0.
\<close>

theorem main_prints_reported_error:
  assumes "getcwd w = Inr cwd" and "XavierCommands w cwd = Inr xavier"
    and "execute w xavier (xavier_command command) (parse_args w (script # command # extra)) =
           Inr result"
    and "\<not> truthy (dict_get result ''success'' PNone)"
  shows "stdout (main w (script # command # extra)) =
           [cross_mark @ '' Error: '' @
            format_field w (dict_get result ''error'' (PStr ''Unknown error''))] \<and>
         status (main w (script # command # extra)) = Exit 0 \<and>
         (result ''error'' = None \<longrightarrow>
            stdout (main w (script # command # extra)) =
              [cross_mark @ '' Error: Unknown error'']) \<and>
         (\<forall>s. result ''error'' = Some (PStr s) \<longrightarrow>
            stdout (main w (script # command # extra)) = [cross_mark @ '' Error: '' @ s])"
proof -
  have "format_result w result =
          Inr (cross_mark @ '' Error: '' @
               format_field w (dict_get result ''error'' (PStr ''Unknown error'')))"
    using assms(4) by (simp add: format_result_def)
  with assms(1-3) have
    "main w (script # command # extra) =
       \<lparr>stdout = [cross_mark @ '' Error: '' @
                  format_field w (dict_get result ''error'' (PStr ''Unknown error''))],
        status = Exit 0,
        executed = [(xavier_command command, parse_args w (script # command # extra))]\<rparr>"
    by (rule main_returned)
  then show ?thesis
    by (simp add: dict_get_def format_field_def)
qed

theorem main_prints_reported_error_witness:
  "execute sample_world ''/home/dev/shop'' (xavier_command ''deploy'')
     (parse_args sample_world [''xavier_bridge.py'', ''deploy'']) =
     Inr [''success'' \<mapsto> PBool False] \<and>
   \<not> truthy (dict_get [''success'' \<mapsto> PBool False] ''success'' PNone) \<and>
   stdout (main sample_world [''xavier_bridge.py'', ''deploy'']) =
     [cross_mark @ '' Error: Unknown error''] \<and>
   status (main sample_world [''xavier_bridge.py'', ''deploy'']) = Exit 0"
proof -
  have x: "xavier_command ''deploy'' = ''/deploy''"
    by (simp add: xavier_command_def dict_get_def str_replace_def command_map_def)
  have r: "getcwd sample_world = Inr ''/home/dev/shop''"
       "XavierCommands sample_world ''/home/dev/shop'' = Inr ''/home/dev/shop''"
    by (simp_all add: sample_world_def)
  have e: "execute sample_world ''/home/dev/shop'' (xavier_command ''deploy'')
     (parse_args sample_world [''xavier_bridge.py'', ''deploy'']) =
     Inr [''success'' \<mapsto> PBool False]"
    by (simp add: x sample_world_def sample_execute_def)
  have t: "\<not> truthy (dict_get [''success'' \<mapsto> PBool False] ''success'' PNone)"
    by (simp add: dict_get_def)
  show ?thesis
    using main_prints_reported_error [OF r e t] e t
    by (simp add: dict_get_def format_field_def)
qed

end
